theory Spec2Isabelle
  imports Complex_Main
begin

section \<open>JavaScript numbers\<close>

text \<open>
  The library computes with JavaScript numbers. They are modelled as exact reals extended
  with the two infinities and NaN, so that \<open>typeof x === "number"\<close>, truthiness, comparison
  with NaN and division by a zero dimension behave as in the language. Rounding of the
  binary floating-point format and the sign of zero are not modelled: every divisor in
  the library is a natural image dimension, which is never negative.
\<close>

datatype number = Fin real | PosInf | NegInf | NaN

text \<open>Truthiness of a number: \<open>0\<close> and \<open>NaN\<close> are falsy.\<close>

definition truthy :: "number \<Rightarrow> bool" where
  "truthy x = (case x of Fin r \<Rightarrow> r \<noteq> 0 | PosInf \<Rightarrow> True | NegInf \<Rightarrow> True | NaN \<Rightarrow> False)"

text \<open>\<open>a > b\<close> and \<open>a <= b\<close>; every comparison with NaN is false.\<close>

fun js_gt :: "number \<Rightarrow> number \<Rightarrow> bool" where
  "js_gt (Fin x) (Fin y) = (y < x)"
| "js_gt NaN _ = False"
| "js_gt _ NaN = False"
| "js_gt PosInf PosInf = False"
| "js_gt PosInf _ = True"
| "js_gt NegInf _ = False"
| "js_gt (Fin x) PosInf = False"
| "js_gt (Fin x) NegInf = True"

fun js_le :: "number \<Rightarrow> number \<Rightarrow> bool" where
  "js_le (Fin x) (Fin y) = (x \<le> y)"
| "js_le NaN _ = False"
| "js_le _ NaN = False"
| "js_le NegInf _ = True"
| "js_le _ PosInf = True"
| "js_le PosInf _ = False"
| "js_le (Fin x) NegInf = False"

text \<open>\<open>a * b\<close> and \<open>a / b\<close>.\<close>

fun js_times :: "number \<Rightarrow> number \<Rightarrow> number" where
  "js_times (Fin x) (Fin y) = Fin (x * y)"
| "js_times NaN _ = NaN"
| "js_times _ NaN = NaN"
| "js_times PosInf (Fin y) = (if y = 0 then NaN else if 0 < y then PosInf else NegInf)"
| "js_times NegInf (Fin y) = (if y = 0 then NaN else if 0 < y then NegInf else PosInf)"
| "js_times (Fin x) PosInf = (if x = 0 then NaN else if 0 < x then PosInf else NegInf)"
| "js_times (Fin x) NegInf = (if x = 0 then NaN else if 0 < x then NegInf else PosInf)"
| "js_times PosInf PosInf = PosInf"
| "js_times PosInf NegInf = NegInf"
| "js_times NegInf PosInf = NegInf"
| "js_times NegInf NegInf = PosInf"

fun js_divide :: "number \<Rightarrow> number \<Rightarrow> number" where
  "js_divide (Fin x) (Fin y) =
     (if y = 0 then (if x = 0 then NaN else if 0 < x then PosInf else NegInf)
      else Fin (x / y))"
| "js_divide NaN _ = NaN"
| "js_divide _ NaN = NaN"
| "js_divide (Fin x) PosInf = Fin 0"
| "js_divide (Fin x) NegInf = Fin 0"
| "js_divide PosInf (Fin y) = (if y < 0 then NegInf else PosInf)"
| "js_divide NegInf (Fin y) = (if y < 0 then PosInf else NegInf)"
| "js_divide PosInf PosInf = NaN"
| "js_divide PosInf NegInf = NaN"
| "js_divide NegInf PosInf = NaN"
| "js_divide NegInf NegInf = NaN"

text \<open>
  \<open>a || b\<close> where \<open>a\<close> is an optional number (\<open>None\<close> is \<open>undefined\<close>) and \<open>b\<close> a number:
  the left operand when it is truthy, the right operand otherwise.
\<close>

definition js_or :: "number option \<Rightarrow> number \<Rightarrow> number" where
  "js_or a b = (case a of None \<Rightarrow> b | Some x \<Rightarrow> if truthy x then x else b)"

section \<open>Data model\<close>

record Dimensions =
  height :: number
  width :: number

record BlobData =
  base64 :: string
  dimensions :: Dimensions

record BlobDetails = BlobData +
  filename :: string

text \<open>An optional field that is absent (\<open>undefined\<close>) is \<open>None\<close>.\<close>

record ScaleOptions =
  height :: "number option"
  width :: "number option"
  preserveRatio :: "bool option"

section \<open>The host: events, promises, effects\<close>

text \<open>An event object handed to a handler by the host, and the values a call can fail with.\<close>

datatype event = Event string

datatype reason = HostEvent event | JsError string

text \<open>
  A promise is settled once or stays pending. A call either throws on the turn of the
  call or returns a promise.
\<close>

datatype 'a promise = Resolved 'a | Rejected reason | Pending

datatype 'a completion = Throws reason | Returns "'a promise"

record File =
  name :: string

text \<open>
  A \<open>FileList\<close> has a length and an indexed accessor; iterating it (as the spread
  \<open>[...files]\<close> does) visits the indices \<open>0\<close> up to \<open>length - 1\<close> in order.
\<close>

record FileList =
  length_FileList :: nat
  item :: "nat \<Rightarrow> File"

record HTMLInputElement =
  files :: "FileList option"

record HTMLImageElement =
  src :: string
  naturalHeight :: nat
  naturalWidth :: nat

text \<open>A call of \<open>context.drawImage(image, sx, sy, sw, sh, dx, dy, dw, dh)\<close>.\<close>

datatype drawing =
  DrawImage HTMLImageElement number number number number number number number number

record HTMLCanvasElement =
  height :: number
  width :: number
  drawn :: "drawing list"

text \<open>
  What the host does after \<open>image.src\<close> is assigned: it fires \<open>load\<close> once the image is
  decoded (the element then reports its natural size), \<open>abort\<close> or \<open>error\<close> with an event
  object, or nothing at all. Likewise for a \<open>FileReader\<close> after \<open>readAsDataURL\<close>.
\<close>

datatype image_event = Load nat nat | Abort event | Error event | NoEvent

datatype reader_event = ReaderLoad string | ReaderAbort event | ReaderError event | ReaderNoEvent

record host =
  decodeImage :: "string \<Rightarrow> image_event"
  readAsDataURL :: "File \<Rightarrow> reader_event"
  getContext :: bool
  toDataURL :: "HTMLCanvasElement \<Rightarrow> string"

text \<open>The requests a call makes to the host, in order.\<close>

datatype effect =
  ImageDecode string
| FileRead File
| CanvasCreate
| CanvasGetContext
| CanvasResize number number
| CanvasDraw drawing
| CanvasEncode

text \<open>
  \<open>promise.then(f)\<close>: \<open>f\<close> runs on the value of a resolved promise; what \<open>f\<close> throws
  (\<open>Inl\<close>) rejects the new promise; a rejection is passed on as it is.
\<close>

definition then_promise ::
  "effect list \<times> 'a promise \<Rightarrow> ('a \<Rightarrow> effect list \<times> (reason + 'b)) \<Rightarrow> effect list \<times> 'b promise" where
  "then_promise ep f =
     (case ep of (effs, p) \<Rightarrow>
        (case p of
           Resolved a \<Rightarrow>
             (case f a of (effs', r) \<Rightarrow>
                (effs @ effs', case r of Inl thrown \<Rightarrow> Rejected thrown | Inr b \<Rightarrow> Resolved b))
         | Rejected r \<Rightarrow> (effs, Rejected r)
         | Pending \<Rightarrow> (effs, Pending)))"

section \<open>getImageData\<close>

record ImageData =
  dimensions :: Dimensions
  image_el :: HTMLImageElement

text \<open>
  The function assigns \<open>onload\<close> and \<open>onabort\<close> and no other handler, so an \<open>error\<close> event
  settles nothing.
\<close>

definition getImageData :: "host \<Rightarrow> string \<Rightarrow> effect list \<times> ImageData promise" where
  "getImageData host b64 =
     ([ImageDecode b64],
      case decodeImage host b64 of
        Load h w \<Rightarrow>
          (let image = \<lparr>src = b64, naturalHeight = h, naturalWidth = w\<rparr>;
               dimensions = \<lparr>Dimensions.height = Fin (real (naturalHeight image)),
                             Dimensions.width = Fin (real (naturalWidth image))\<rparr>
           in Resolved \<lparr>ImageData.dimensions = dimensions, image_el = image\<rparr>)
      | Abort event \<Rightarrow> Rejected (HostEvent event)
      | Error event \<Rightarrow> Pending
      | NoEvent \<Rightarrow> Pending)"

section \<open>getFileBlobs\<close>

definition spread :: "FileList \<Rightarrow> File list" where
  "spread fl = map (item fl) [0 ..< length_FileList fl]"

definition getFileBlobs :: "HTMLInputElement \<Rightarrow> effect list \<times> File list completion" where
  "getFileBlobs input =
     (let fs = (case files input of None \<Rightarrow> [] | Some fl \<Rightarrow> spread fl)
      in ([], Returns (Resolved fs)))"

section \<open>getBase64\<close>

definition getBase64 :: "host \<Rightarrow> File \<Rightarrow> effect list \<times> BlobDetails completion" where
  "getBase64 host file =
     (case readAsDataURL host file of
        ReaderLoad result \<Rightarrow>
          (case then_promise (getImageData host result)
                  (\<lambda>imageData.
                     ([], Inr \<lparr>BlobData.base64 = result,
                               BlobData.dimensions = ImageData.dimensions imageData,
                               filename = name file\<rparr>))
           of (effs, output) \<Rightarrow> (FileRead file # effs, Returns output))
      | ReaderAbort err \<Rightarrow> ([FileRead file], Returns (Rejected (HostEvent err)))
      | ReaderError err \<Rightarrow> ([FileRead file], Returns Pending)
      | ReaderNoEvent \<Rightarrow> ([FileRead file], Returns Pending))"

section \<open>scaleBase64\<close>

text \<open>
  \<open>(options.height && fullDimensions.height > options.height) ||
   (options.width && fullDimensions.width > options.width)\<close>, read as a condition.
\<close>

definition scaleDown :: "ScaleOptions \<Rightarrow> Dimensions \<Rightarrow> bool" where
  "scaleDown options fullDimensions =
     ((case ScaleOptions.height options of
         None \<Rightarrow> False
       | Some h \<Rightarrow> truthy h \<and> js_gt (Dimensions.height fullDimensions) h)
      \<or>
      (case ScaleOptions.width options of
         None \<Rightarrow> False
       | Some w \<Rightarrow> truthy w \<and> js_gt (Dimensions.width fullDimensions) w))"

definition largerDimension :: "Dimensions \<Rightarrow> number" where
  "largerDimension fullDimensions =
     (if js_gt (Dimensions.height fullDimensions) (Dimensions.width fullDimensions)
      then Dimensions.height fullDimensions else Dimensions.width fullDimensions)"

definition percentage :: "ScaleOptions \<Rightarrow> Dimensions \<Rightarrow> number" where
  "percentage options fullDimensions =
     (let chosenHeight = js_or (ScaleOptions.height options) (Fin 0);
          chosenWidth = js_or (ScaleOptions.width options) (Fin 0)
      in if js_gt chosenHeight (Fin 0) \<and> js_gt chosenWidth (Fin 0) then
           (let dimension =
                  (if js_gt (Dimensions.height fullDimensions) (Dimensions.width fullDimensions)
                   then chosenHeight else chosenWidth)
            in js_divide dimension (largerDimension fullDimensions))
         else if js_gt chosenHeight (Fin 0) then
           js_divide chosenHeight (largerDimension fullDimensions)
         else if js_gt chosenWidth (Fin 0) then
           js_divide chosenWidth (largerDimension fullDimensions)
         else Fin 1)"

text \<open>
  The end of the callback: the canvas is created, its context requested, the image drawn
  at the computed size and the canvas encoded.
\<close>

definition drawScaled ::
  "host \<Rightarrow> ImageData \<Rightarrow> Dimensions \<Rightarrow> effect list \<times> (reason + BlobData)" where
  "drawScaled host imageData dims =
     (let fullDimensions = ImageData.dimensions imageData in
      if \<not> getContext host then
        ([CanvasCreate, CanvasGetContext],
         Inl (JsError ''image-blobber package failed to get canvas context.''))
      else
        (let call = DrawImage (image_el imageData) (Fin 0) (Fin 0)
                      (Dimensions.width fullDimensions) (Dimensions.height fullDimensions)
                      (Fin 0) (Fin 0)
                      (Dimensions.width dims) (Dimensions.height dims);
             canvas = \<lparr>HTMLCanvasElement.height = Dimensions.height dims,
                       HTMLCanvasElement.width = Dimensions.width dims,
                       drawn = [call]\<rparr>
         in ([CanvasCreate, CanvasGetContext,
              CanvasResize (Dimensions.height dims) (Dimensions.width dims),
              CanvasDraw call, CanvasEncode],
             Inr \<lparr>BlobData.base64 = toDataURL host canvas,
                  BlobData.dimensions = dims\<rparr>)))"

text \<open>The callback given to \<open>then\<close>.\<close>

definition scaleBase64_then ::
  "host \<Rightarrow> string \<Rightarrow> ScaleOptions \<Rightarrow> ImageData \<Rightarrow> effect list \<times> (reason + BlobData)" where
  "scaleBase64_then host b64 options imageData =
     (let fullDimensions = ImageData.dimensions imageData;
          dimensions = \<lparr>Dimensions.height = Dimensions.height fullDimensions,
                        Dimensions.width = Dimensions.width fullDimensions\<rparr>
      in if preserveRatio options = Some False then
           drawScaled host imageData
             \<lparr>Dimensions.height = js_or (ScaleOptions.height options) (Dimensions.height dimensions),
              Dimensions.width = js_or (ScaleOptions.width options) (Dimensions.width dimensions)\<rparr>
         else if \<not> scaleDown options fullDimensions then
           ([], Inr \<lparr>BlobData.base64 = b64, BlobData.dimensions = dimensions\<rparr>)
         else
           drawScaled host imageData
             \<lparr>Dimensions.height =
                js_times (Dimensions.height fullDimensions) (percentage options fullDimensions),
              Dimensions.width =
                js_times (Dimensions.width fullDimensions) (percentage options fullDimensions)\<rparr>)"

definition scaleBase64 ::
  "host \<Rightarrow> string \<Rightarrow> ScaleOptions \<Rightarrow> effect list \<times> BlobData completion" where
  "scaleBase64 host b64 options =
     (if ScaleOptions.height options = None \<and> ScaleOptions.width options = None then
        ([], Throws (JsError
           ''scaleBase64() did not receive valid scaling options. options.height or options.width must be a number.''))
      else
        (case then_promise (getImageData host b64) (scaleBase64_then host b64 options)
         of (effs, p) \<Rightarrow> (effs, Returns p)))"

section \<open>Hosts and inputs used as examples\<close>

text \<open>A host that decodes every image to the given natural height and width.\<close>

definition loading_host :: "nat \<Rightarrow> nat \<Rightarrow> host" where
  "loading_host h w =
     \<lparr>decodeImage = (\<lambda>s. Load h w),
      readAsDataURL = (\<lambda>f. ReaderLoad (''data:'' @ name f)),
      getContext = True,
      toDataURL = (\<lambda>c. ''data:image/png;base64,scaled'')\<rparr>"

text \<open>Hosts whose image decoding ends with an \<open>abort\<close> or an \<open>error\<close> event.\<close>

definition aborting_host :: host where
  "aborting_host =
     \<lparr>decodeImage = (\<lambda>s. Abort (Event ''abort'')),
      readAsDataURL = (\<lambda>f. ReaderLoad (''data:'' @ name f)),
      getContext = True,
      toDataURL = (\<lambda>c. ''data:image/png;base64,scaled'')\<rparr>"

definition failing_host :: host where
  "failing_host =
     \<lparr>decodeImage = (\<lambda>s. Error (Event ''error'')),
      readAsDataURL = (\<lambda>f. ReaderLoad (''data:'' @ name f)),
      getContext = True,
      toDataURL = (\<lambda>c. ''data:image/png;base64,scaled'')\<rparr>"

section \<open>Notions used to state the properties\<close>

text \<open>The natural dimensions of a decoded image, as numbers.\<close>

definition natural :: "nat \<Rightarrow> nat \<Rightarrow> Dimensions" where
  "natural H W = \<lparr>Dimensions.height = Fin (real H), Dimensions.width = Fin (real W)\<rparr>"

text \<open>What \<open>getImageData\<close> resolves with when the host fires \<open>load\<close>.\<close>

definition loaded :: "string \<Rightarrow> nat \<Rightarrow> nat \<Rightarrow> ImageData" where
  "loaded b64 H W =
     \<lparr>ImageData.dimensions = natural H W,
      image_el = \<lparr>src = b64, naturalHeight = H, naturalWidth = W\<rparr>\<rparr>"

text \<open>The dimensions a call resolves with, when it resolves.\<close>

definition result_dimensions :: "effect list \<times> BlobData completion \<Rightarrow> Dimensions option" where
  "result_dimensions out =
     (case snd out of
        Returns (Resolved r) \<Rightarrow> Some (BlobData.dimensions r)
      | Returns (Rejected e) \<Rightarrow> None
      | Returns Pending \<Rightarrow> None
      | Throws e \<Rightarrow> None)"

text \<open>
  The scaling policy in the words of the specification. A constraint is positive when it
  is given and greater than zero. The constraint \<open>c\<close> that fixes the scale factor is the
  height when both are positive and the height is the larger natural axis, the width when
  both are positive and it is not, and the single positive constraint otherwise. The
  scaled dimensions are \<open>(H * p, W * p)\<close> with \<open>p = c / max(H, W)\<close>.
\<close>

definition positive :: "number option \<Rightarrow> bool" where
  "positive c = (case c of None \<Rightarrow> False | Some x \<Rightarrow> js_gt x (Fin 0))"

definition spec_constraint :: "ScaleOptions \<Rightarrow> nat \<Rightarrow> nat \<Rightarrow> number option" where
  "spec_constraint options H W =
     (if positive (ScaleOptions.height options) \<and> positive (ScaleOptions.width options) then
        (if W < H then ScaleOptions.height options else ScaleOptions.width options)
      else if positive (ScaleOptions.height options) then ScaleOptions.height options
      else if positive (ScaleOptions.width options) then ScaleOptions.width options
      else None)"

definition spec_scaled :: "nat \<Rightarrow> nat \<Rightarrow> number \<Rightarrow> Dimensions" where
  "spec_scaled H W c =
     \<lparr>Dimensions.height = js_times (Fin (real H)) (js_divide c (Fin (real (max H W)))),
      Dimensions.width = js_times (Fin (real W)) (js_divide c (Fin (real (max H W))))\<rparr>"

text \<open>
  Free scaling in the words of the specification: an axis takes the option when it is
  provided and not zero, and the natural dimension when the option is absent or falsy
  (\<open>0\<close> or \<open>NaN\<close>).
\<close>

definition spec_free_axis :: "number option \<Rightarrow> nat \<Rightarrow> number" where
  "spec_free_axis c N =
     (case c of
        None \<Rightarrow> Fin (real N)
      | Some v \<Rightarrow> if v = Fin 0 \<or> v = NaN then Fin (real N) else v)"

text \<open>
  Comparing the constraints of two calls, in the words of the specification. An option
  that is absent or falsy (\<open>0\<close> or \<open>NaN\<close>) is not provided and imposes no constraint. The
  second call has the same constraints when its options are those of the first; its
  constraints are at least as large when, axis by axis, it imposes no constraint, or the
  first call imposes one too and the second is not smaller.
\<close>

definition effective :: "number option \<Rightarrow> number option" where
  "effective c = (case c of None \<Rightarrow> None | Some x \<Rightarrow> if truthy x then Some x else None)"

definition constraint_le :: "number option \<Rightarrow> number option \<Rightarrow> bool" where
  "constraint_le a b =
     (case effective b of
        None \<Rightarrow> True
      | Some y \<Rightarrow> (case effective a of None \<Rightarrow> False | Some x \<Rightarrow> js_le x y))"

definition at_least_as_large :: "ScaleOptions \<Rightarrow> ScaleOptions \<Rightarrow> bool" where
  "at_least_as_large again options =
     (constraint_le (ScaleOptions.height options) (ScaleOptions.height again)
      \<and> constraint_le (ScaleOptions.width options) (ScaleOptions.width again))"

definition same_constraints :: "ScaleOptions \<Rightarrow> ScaleOptions \<Rightarrow> bool" where
  "same_constraints again options =
     (ScaleOptions.height again = ScaleOptions.height options
      \<and> ScaleOptions.width again = ScaleOptions.width options)"

text \<open>A file input holding two files.\<close>

definition two_files :: HTMLInputElement where
  "two_files =
     \<lparr>files = Some \<lparr>length_FileList = 2,
                     item = (\<lambda>i. if i = 0 then \<lparr>name = ''a.png''\<rparr> else \<lparr>name = ''b.png''\<rparr>)\<rparr>\<rparr>"

section \<open>Running a call whose image loads\<close>

lemma getImageData_Load:
  "decodeImage host b64 = Load H W \<Longrightarrow>
   getImageData host b64 = ([ImageDecode b64], Resolved (loaded b64 H W))"
  by (simp add: getImageData_def loaded_def natural_def)

lemma scaleBase64_Load:
  assumes "ScaleOptions.height options \<noteq> None \<or> ScaleOptions.width options \<noteq> None"
    and "decodeImage host b64 = Load H W"
  shows "scaleBase64 host b64 options =
     (ImageDecode b64 # fst (scaleBase64_then host b64 options (loaded b64 H W)),
      Returns (case snd (scaleBase64_then host b64 options (loaded b64 H W)) of
                 Inl thrown \<Rightarrow> Rejected thrown | Inr v \<Rightarrow> Resolved v))"
  using assms
  by (auto simp add: scaleBase64_def then_promise_def getImageData_Load split: prod.splits)

section \<open>Option validation\<close>

text \<open>
  C3. When neither \<open>height\<close> nor \<open>width\<close> of the options is a number, \<open>scaleBase64\<close>
  throws on the turn of the call: no promise is returned, and the host has been asked
  nothing, in particular no image decode.
\<close>

theorem scaleBase64_invalid_options_throws:
  "ScaleOptions.height options = None \<and> ScaleOptions.width options = None \<Longrightarrow>
   scaleBase64 host b64 options =
     ([], Throws (JsError
        ''scaleBase64() did not receive valid scaling options. options.height or options.width must be a number.''))"
  by (simp add: scaleBase64_def)

theorem scaleBase64_invalid_options_throws_witness:
  "ScaleOptions.height \<lparr>ScaleOptions.height = None, width = None, preserveRatio = Some True\<rparr> = None
   \<and> ScaleOptions.width \<lparr>ScaleOptions.height = None, width = None, preserveRatio = Some True\<rparr> = None
   \<and> scaleBase64 (loading_host 200 100) ''data:image/png;base64,AAAA''
        \<lparr>ScaleOptions.height = None, width = None, preserveRatio = Some True\<rparr> =
      ([], Throws (JsError
        ''scaleBase64() did not receive valid scaling options. options.height or options.width must be a number.''))"
  using scaleBase64_invalid_options_throws
    [of "\<lparr>ScaleOptions.height = None, width = None, preserveRatio = Some True\<rparr>"
        "loading_host 200 100" "''data:image/png;base64,AAAA''"]
  by simp

section \<open>The selected constraint and the factor computed by the code\<close>

lemma positive_js_or:
  "positive (Some x) \<Longrightarrow> js_or (Some x) (Fin 0) = x"
  by (cases x) (auto simp add: positive_def js_or_def truthy_def)

lemma not_positive_js_or:
  "\<not> positive c \<Longrightarrow> \<not> js_gt (js_or c (Fin 0)) (Fin 0)"
  by (cases c) (auto simp add: positive_def js_or_def)

lemma largerDimension_natural:
  "largerDimension (natural H W) = Fin (real (max H W))"
  by (simp add: largerDimension_def natural_def max_def)

lemma percentage_spec:
  assumes "spec_constraint options H W = Some c"
  shows "percentage options (natural H W) = js_divide c (Fin (real (max H W)))"
proof -
  let ?h = "ScaleOptions.height options" and ?w = "ScaleOptions.width options"
  consider (both) "positive ?h" "positive ?w"
    | (honly) "positive ?h" "\<not> positive ?w"
    | (wonly) "\<not> positive ?h" "positive ?w"
    | (none) "\<not> positive ?h" "\<not> positive ?w"
    by blast
  then show ?thesis
  proof cases
    case both
    then obtain x y where xy: "?h = Some x" "?w = Some y"
      by (auto simp add: positive_def split: option.splits)
    with both have gt: "js_gt x (Fin 0)" "js_gt y (Fin 0)"
      by (simp_all add: positive_def)
    from both xy have or: "js_or ?h (Fin 0) = x" "js_or ?w (Fin 0) = y"
      using positive_js_or by simp_all
    from assms both xy have c: "c = (if W < H then x else y)"
      by (simp add: spec_constraint_def split: if_splits)
    show ?thesis
      using gt by (simp add: percentage_def or largerDimension_natural c) (simp add: natural_def)
  next
    case honly
    then obtain x where x: "?h = Some x"
      by (auto simp add: positive_def split: option.splits)
    with honly have gt: "js_gt x (Fin 0)" by (simp add: positive_def)
    from honly x have or: "js_or ?h (Fin 0) = x" using positive_js_or by simp
    from assms honly x have c: "c = x" by (simp add: spec_constraint_def)
    from honly(2) have "\<not> js_gt (js_or ?w (Fin 0)) (Fin 0)" by (rule not_positive_js_or)
    then show ?thesis
      using gt by (simp add: percentage_def or largerDimension_natural c)
  next
    case wonly
    then obtain y where y: "?w = Some y"
      by (auto simp add: positive_def split: option.splits)
    with wonly have gt: "js_gt y (Fin 0)" by (simp add: positive_def)
    from wonly y have or: "js_or ?w (Fin 0) = y" using positive_js_or by simp
    from assms wonly y have c: "c = y" by (simp add: spec_constraint_def)
    from wonly(1) have "\<not> js_gt (js_or ?h (Fin 0)) (Fin 0)" by (rule not_positive_js_or)
    then show ?thesis
      using gt by (simp add: percentage_def or largerDimension_natural c)
  next
    case none
    with assms show ?thesis by (simp add: spec_constraint_def)
  qed
qed

lemma percentage_no_positive_constraint:
  assumes "spec_constraint options H W = None"
  shows "percentage options (natural H W) = Fin 1"
proof -
  from assms have "\<not> positive (ScaleOptions.height options)" "\<not> positive (ScaleOptions.width options)"
    by (auto simp add: spec_constraint_def positive_def split: if_splits option.splits)
  then have "\<not> js_gt (js_or (ScaleOptions.height options) (Fin 0)) (Fin 0)"
    and "\<not> js_gt (js_or (ScaleOptions.width options) (Fin 0)) (Fin 0)"
    by (simp_all add: not_positive_js_or)
  then show ?thesis by (simp add: percentage_def)
qed

lemma result_dimensions_drawScaled:
  assumes "ScaleOptions.height options \<noteq> None \<or> ScaleOptions.width options \<noteq> None"
    and "decodeImage host b64 = Load H W"
    and "getContext host"
    and "scaleBase64_then host b64 options (loaded b64 H W) = drawScaled host (loaded b64 H W) dims"
  shows "result_dimensions (scaleBase64 host b64 options) = Some dims"
  using assms
  by (simp add: scaleBase64_Load [of options host b64 H W] result_dimensions_def drawScaled_def Let_def)

lemma scale_factor_general:
  assumes "preserveRatio options \<noteq> Some False"
    and "decodeImage host b64 = Load H W"
    and "getContext host"
    and "scaleDown options (natural H W)"
    and "spec_constraint options H W = Some c"
  shows "result_dimensions (scaleBase64 host b64 options) = Some (spec_scaled H W c)"
proof -
  from assms(5) have valid: "ScaleOptions.height options \<noteq> None \<or> ScaleOptions.width options \<noteq> None"
    by (auto simp add: spec_constraint_def positive_def split: if_splits)
  have "scaleBase64_then host b64 options (loaded b64 H W) =
        drawScaled host (loaded b64 H W) (spec_scaled H W c)"
    using assms(1,4) percentage_spec [OF assms(5)]
    by (simp add: scaleBase64_then_def loaded_def Let_def spec_scaled_def) (simp add: natural_def)
  with valid assms(2,3) show ?thesis
    by (rule result_dimensions_drawScaled)
qed

section \<open>The scale factor\<close>

text \<open>
  C2. In ratio-preserving mode (\<open>preserveRatio\<close> true or absent), when downscaling is needed
  and \<open>c\<close> is the constraint the specification selects (the height when both constraints
  are positive and the natural height is the larger axis, the width when both are positive
  and it is not, the single positive constraint otherwise), a call whose image loads and
  whose canvas context is available resolves with the dimensions \<open>(H * p, W * p)\<close> where
  \<open>p = c / max(H, W)\<close>. In particular a 200x100 image (height 200) scaled with
  \<open>{height: 50, width: 50, preserveRatio: true}\<close> gives \<open>(50, 25)\<close>, and so does
  \<open>{width: 50, preserveRatio: true}\<close>. When downscaling is needed and no constraint is
  positive (a negative constraint), \<open>spec_constraint\<close> selects nothing and the code uses
  the factor 1.
\<close>

theorem scaleBase64_scale_factor:
  "(\<forall>(host::host) b64 options H W c.
      preserveRatio options \<noteq> Some False \<and> decodeImage host b64 = Load H W \<and> getContext host
      \<and> scaleDown options (natural H W) \<and> spec_constraint options H W = Some c
      \<longrightarrow> result_dimensions (scaleBase64 host b64 options) = Some (spec_scaled H W c))
   \<and> (\<forall>(host::host) b64. decodeImage host b64 = Load 200 100 \<and> getContext host \<longrightarrow>
        result_dimensions (scaleBase64 host b64
          \<lparr>ScaleOptions.height = Some (Fin 50), width = Some (Fin 50), preserveRatio = Some True\<rparr>)
        = Some \<lparr>Dimensions.height = Fin 50, width = Fin 25\<rparr>)
   \<and> (\<forall>(host::host) b64. decodeImage host b64 = Load 200 100 \<and> getContext host \<longrightarrow>
        result_dimensions (scaleBase64 host b64
          \<lparr>ScaleOptions.height = None, width = Some (Fin 50), preserveRatio = Some True\<rparr>)
        = Some \<lparr>Dimensions.height = Fin 50, width = Fin 25\<rparr>)"
proof (intro conjI allI impI)
  fix host :: host and b64 options H W c
  assume "preserveRatio options \<noteq> Some False \<and> decodeImage host b64 = Load H W \<and> getContext host
      \<and> scaleDown options (natural H W) \<and> spec_constraint options H W = Some c"
  then show "result_dimensions (scaleBase64 host b64 options) = Some (spec_scaled H W c)"
    using scale_factor_general by blast
next
  fix host :: host and b64
  let ?o = "\<lparr>ScaleOptions.height = Some (Fin 50), width = Some (Fin 50), preserveRatio = Some True\<rparr>"
  assume a: "decodeImage host b64 = Load 200 100 \<and> getContext host"
  have "scaleDown ?o (natural 200 100)"
    by (simp add: scaleDown_def natural_def truthy_def)
  moreover have "spec_constraint ?o 200 100 = Some (Fin 50)"
    by (simp add: spec_constraint_def positive_def)
  ultimately have "result_dimensions (scaleBase64 host b64 ?o) = Some (spec_scaled 200 100 (Fin 50))"
    using a scale_factor_general [of ?o host b64 200 100 "Fin 50"] by simp
  then show "result_dimensions (scaleBase64 host b64 ?o) = Some \<lparr>Dimensions.height = Fin 50, width = Fin 25\<rparr>"
    by (simp add: spec_scaled_def)
next
  fix host :: host and b64
  let ?o = "\<lparr>ScaleOptions.height = None, width = Some (Fin 50), preserveRatio = Some True\<rparr>"
  assume a: "decodeImage host b64 = Load 200 100 \<and> getContext host"
  have "scaleDown ?o (natural 200 100)"
    by (simp add: scaleDown_def natural_def truthy_def)
  moreover have "spec_constraint ?o 200 100 = Some (Fin 50)"
    by (simp add: spec_constraint_def positive_def)
  ultimately have "result_dimensions (scaleBase64 host b64 ?o) = Some (spec_scaled 200 100 (Fin 50))"
    using a scale_factor_general [of ?o host b64 200 100 "Fin 50"] by simp
  then show "result_dimensions (scaleBase64 host b64 ?o) = Some \<lparr>Dimensions.height = Fin 50, width = Fin 25\<rparr>"
    by (simp add: spec_scaled_def)
qed

theorem scaleBase64_scale_factor_witness:
  "preserveRatio \<lparr>ScaleOptions.height = Some (Fin 30), width = Some (Fin 60), preserveRatio = None\<rparr> \<noteq> Some False
   \<and> decodeImage (loading_host 90 120) ''data:,img'' = Load 90 120
   \<and> getContext (loading_host 90 120)
   \<and> scaleDown \<lparr>ScaleOptions.height = Some (Fin 30), width = Some (Fin 60), preserveRatio = None\<rparr> (natural 90 120)
   \<and> spec_constraint \<lparr>ScaleOptions.height = Some (Fin 30), width = Some (Fin 60), preserveRatio = None\<rparr> 90 120 = Some (Fin 60)
   \<and> result_dimensions (scaleBase64 (loading_host 90 120) ''data:,img''
        \<lparr>ScaleOptions.height = Some (Fin 30), width = Some (Fin 60), preserveRatio = None\<rparr>)
      = Some \<lparr>Dimensions.height = Fin 45, width = Fin 60\<rparr>
   \<and> decodeImage (loading_host 200 100) ''data:,img'' = Load 200 100
   \<and> getContext (loading_host 200 100)
   \<and> result_dimensions (scaleBase64 (loading_host 200 100) ''data:,img''
        \<lparr>ScaleOptions.height = Some (Fin 50), width = Some (Fin 50), preserveRatio = Some True\<rparr>)
      = Some \<lparr>Dimensions.height = Fin 50, width = Fin 25\<rparr>
   \<and> result_dimensions (scaleBase64 (loading_host 200 100) ''data:,img''
        \<lparr>ScaleOptions.height = None, width = Some (Fin 50), preserveRatio = Some True\<rparr>)
      = Some \<lparr>Dimensions.height = Fin 50, width = Fin 25\<rparr>"
proof -
  let ?o = "\<lparr>ScaleOptions.height = Some (Fin 30), width = Some (Fin 60), preserveRatio = None\<rparr>"
  have h1: "preserveRatio ?o \<noteq> Some False" by simp
  have h2: "decodeImage (loading_host 90 120) ''data:,img'' = Load 90 120"
    by (simp add: loading_host_def)
  have h3: "getContext (loading_host 90 120)" by (simp add: loading_host_def)
  have h4: "scaleDown ?o (natural 90 120)"
    by (simp add: scaleDown_def natural_def truthy_def)
  have h5: "spec_constraint ?o 90 120 = Some (Fin 60)"
    by (simp add: spec_constraint_def positive_def)
  have h6: "decodeImage (loading_host 200 100) ''data:,img'' = Load 200 100"
    by (simp add: loading_host_def)
  have h7: "getContext (loading_host 200 100)" by (simp add: loading_host_def)
  have s: "spec_scaled 90 120 (Fin 60) = \<lparr>Dimensions.height = Fin 45, width = Fin 60\<rparr>"
    by (simp add: spec_scaled_def)
  from scaleBase64_scale_factor h1 h2 h3 h4 h5
  have r1: "result_dimensions (scaleBase64 (loading_host 90 120) ''data:,img'' ?o)
            = Some (spec_scaled 90 120 (Fin 60))"
    by blast
  from scaleBase64_scale_factor h6 h7
  have r2: "result_dimensions (scaleBase64 (loading_host 200 100) ''data:,img''
        \<lparr>ScaleOptions.height = Some (Fin 50), width = Some (Fin 50), preserveRatio = Some True\<rparr>)
      = Some \<lparr>Dimensions.height = Fin 50, width = Fin 25\<rparr>"
    by blast
  from scaleBase64_scale_factor h6 h7
  have r3: "result_dimensions (scaleBase64 (loading_host 200 100) ''data:,img''
        \<lparr>ScaleOptions.height = None, width = Some (Fin 50), preserveRatio = Some True\<rparr>)
      = Some \<lparr>Dimensions.height = Fin 50, width = Fin 25\<rparr>"
    by blast
  show ?thesis
    using h1 h2 h3 h4 h5 h6 h7 r1 r2 r3 s by simp
qed

section \<open>The short circuit\<close>

lemma scaleBase64_then_short_circuit:
  assumes "preserveRatio options \<noteq> Some False"
    and "\<not> scaleDown options (natural H W)"
  shows "scaleBase64_then host b64 options (loaded b64 H W) =
         ([], Inr \<lparr>BlobData.base64 = b64, BlobData.dimensions = natural H W\<rparr>)"
  using assms by (simp add: scaleBase64_then_def loaded_def Let_def natural_def)

lemma scaleBase64_short_circuit:
  assumes "\<not> (ScaleOptions.height options = None \<and> ScaleOptions.width options = None)"
    and "preserveRatio options \<noteq> Some False"
    and "decodeImage host b64 = Load H W"
    and "\<not> scaleDown options (natural H W)"
  shows "scaleBase64 host b64 options =
         ([ImageDecode b64],
          Returns (Resolved \<lparr>BlobData.base64 = b64, BlobData.dimensions = natural H W\<rparr>))"
proof -
  from assms(1) have "ScaleOptions.height options \<noteq> None \<or> ScaleOptions.width options \<noteq> None"
    by auto
  then show ?thesis
    using assms(3) scaleBase64_then_short_circuit [OF assms(2,4)]
    by (simp add: scaleBase64_Load [of options host b64 H W])
qed

text \<open>
  C4. When the options are valid (at least one of \<open>height\<close> and \<open>width\<close> is a number),
  \<open>preserveRatio\<close> is true or absent, the image loads with natural dimensions \<open>(H, W)\<close>, no
  given height is smaller than \<open>H\<close> and no given width is smaller than \<open>W\<close>, then
  \<open>scaleBase64\<close> resolves with the encoded string it was given and with the natural
  dimensions. The only request made to the host is the decode of the image: no canvas is
  created and nothing is encoded again.
\<close>

theorem scaleBase64_no_downscale_returns_original:
  assumes "\<not> (ScaleOptions.height options = None \<and> ScaleOptions.width options = None)"
    and "preserveRatio options \<noteq> Some False"
    and "decodeImage host b64 = Load H W"
    and "\<forall>h. ScaleOptions.height options = Some h \<longrightarrow> \<not> js_gt (Fin (real H)) h"
    and "\<forall>w. ScaleOptions.width options = Some w \<longrightarrow> \<not> js_gt (Fin (real W)) w"
  shows "scaleBase64 host b64 options =
         ([ImageDecode b64],
          Returns (Resolved \<lparr>BlobData.base64 = b64, BlobData.dimensions = natural H W\<rparr>))"
proof -
  from assms(4,5) have "\<not> scaleDown options (natural H W)"
    by (auto simp add: scaleDown_def natural_def split: option.splits)
  with assms(1,2,3) show ?thesis
    by (rule scaleBase64_short_circuit)
qed

theorem scaleBase64_no_downscale_returns_original_witness:
  "\<not> (ScaleOptions.height \<lparr>ScaleOptions.height = Some (Fin 400), width = Some (Fin 100), preserveRatio = None\<rparr> = None
       \<and> ScaleOptions.width \<lparr>ScaleOptions.height = Some (Fin 400), width = Some (Fin 100), preserveRatio = None\<rparr> = None)
   \<and> preserveRatio \<lparr>ScaleOptions.height = Some (Fin 400), width = Some (Fin 100), preserveRatio = None\<rparr> \<noteq> Some False
   \<and> decodeImage (loading_host 200 100) ''data:,img'' = Load 200 100
   \<and> \<not> js_gt (Fin (real (200::nat))) (Fin 400)
   \<and> \<not> js_gt (Fin (real (100::nat))) (Fin 100)
   \<and> scaleBase64 (loading_host 200 100) ''data:,img''
        \<lparr>ScaleOptions.height = Some (Fin 400), width = Some (Fin 100), preserveRatio = None\<rparr> =
      ([ImageDecode ''data:,img''],
       Returns (Resolved \<lparr>BlobData.base64 = ''data:,img'', BlobData.dimensions = natural 200 100\<rparr>))"
proof -
  let ?o = "\<lparr>ScaleOptions.height = Some (Fin 400), width = Some (Fin 100), preserveRatio = None\<rparr>"
  have h1: "\<not> (ScaleOptions.height ?o = None \<and> ScaleOptions.width ?o = None)" by simp
  have h2: "preserveRatio ?o \<noteq> Some False" by simp
  have h3: "decodeImage (loading_host 200 100) ''data:,img'' = Load 200 100"
    by (simp add: loading_host_def)
  have h4: "\<forall>h. ScaleOptions.height ?o = Some h \<longrightarrow> \<not> js_gt (Fin (real (200::nat))) h" by simp
  have h5: "\<forall>w. ScaleOptions.width ?o = Some w \<longrightarrow> \<not> js_gt (Fin (real (100::nat))) w" by simp
  show ?thesis
    using scaleBase64_no_downscale_returns_original [OF h1 h2 h3 h4 h5] h3 by simp
qed

section \<open>Free scaling\<close>

lemma js_or_spec_free_axis: "js_or c (Fin (real N)) = spec_free_axis c N"
  by (cases c) (auto simp add: js_or_def spec_free_axis_def truthy_def split: number.splits)

lemma free_scaling_general:
  assumes "preserveRatio options = Some False"
    and "\<not> (ScaleOptions.height options = None \<and> ScaleOptions.width options = None)"
    and "decodeImage host b64 = Load H W"
    and "getContext host"
  shows "result_dimensions (scaleBase64 host b64 options) =
         Some \<lparr>Dimensions.height = spec_free_axis (ScaleOptions.height options) H,
               Dimensions.width = spec_free_axis (ScaleOptions.width options) W\<rparr>"
proof -
  from assms(2) have valid: "ScaleOptions.height options \<noteq> None \<or> ScaleOptions.width options \<noteq> None"
    by auto
  have "scaleBase64_then host b64 options (loaded b64 H W) =
        drawScaled host (loaded b64 H W)
          \<lparr>Dimensions.height = spec_free_axis (ScaleOptions.height options) H,
           Dimensions.width = spec_free_axis (ScaleOptions.width options) W\<rparr>"
    using assms(1)
    by (simp add: scaleBase64_then_def loaded_def Let_def natural_def js_or_spec_free_axis)
  with valid assms(3,4) show ?thesis
    by (rule result_dimensions_drawScaled)
qed

text \<open>
  C6. With \<open>preserveRatio === false\<close>, valid options, an image that loads with natural
  dimensions \<open>(H, W)\<close> and an available canvas context, \<open>scaleBase64\<close> resolves with a
  height and a width set independently of each other: the height is \<open>options.height\<close> when
  it is provided and not zero, and \<open>H\<close> when it is absent or falsy; likewise the width. In
  particular a 200x100 image with \<open>{height: 300, width: 300, preserveRatio: false}\<close> gives
  \<open>(300, 300)\<close>.
\<close>

theorem scaleBase64_free_scaling:
  "(\<forall>(host::host) b64 (options::ScaleOptions) H W.
      preserveRatio options = Some False
      \<and> \<not> (ScaleOptions.height options = None \<and> ScaleOptions.width options = None)
      \<and> decodeImage host b64 = Load H W \<and> getContext host
      \<longrightarrow> result_dimensions (scaleBase64 host b64 options) =
            Some \<lparr>Dimensions.height = spec_free_axis (ScaleOptions.height options) H,
                  Dimensions.width = spec_free_axis (ScaleOptions.width options) W\<rparr>)
   \<and> (\<forall>(host::host) b64. decodeImage host b64 = Load 200 100 \<and> getContext host \<longrightarrow>
        result_dimensions (scaleBase64 host b64
          \<lparr>ScaleOptions.height = Some (Fin 300), width = Some (Fin 300), preserveRatio = Some False\<rparr>)
        = Some \<lparr>Dimensions.height = Fin 300, width = Fin 300\<rparr>)"
proof (intro conjI allI impI)
  fix host :: host and b64 and options :: ScaleOptions and H W
  assume "preserveRatio options = Some False
      \<and> \<not> (ScaleOptions.height options = None \<and> ScaleOptions.width options = None)
      \<and> decodeImage host b64 = Load H W \<and> getContext host"
  then show "result_dimensions (scaleBase64 host b64 options) =
            Some \<lparr>Dimensions.height = spec_free_axis (ScaleOptions.height options) H,
                  Dimensions.width = spec_free_axis (ScaleOptions.width options) W\<rparr>"
    using free_scaling_general by blast
next
  fix host :: host and b64
  let ?o = "\<lparr>ScaleOptions.height = Some (Fin 300), width = Some (Fin 300), preserveRatio = Some False\<rparr>"
  assume a: "decodeImage host b64 = Load 200 100 \<and> getContext host"
  then have "result_dimensions (scaleBase64 host b64 ?o) =
         Some \<lparr>Dimensions.height = spec_free_axis (ScaleOptions.height ?o) 200,
               Dimensions.width = spec_free_axis (ScaleOptions.width ?o) 100\<rparr>"
    using free_scaling_general [of ?o host b64 200 100] by simp
  then show "result_dimensions (scaleBase64 host b64 ?o) = Some \<lparr>Dimensions.height = Fin 300, width = Fin 300\<rparr>"
    by (simp add: spec_free_axis_def)
qed

theorem scaleBase64_free_scaling_witness:
  "preserveRatio \<lparr>ScaleOptions.height = Some (Fin 0), width = Some (Fin 640), preserveRatio = Some False\<rparr> = Some False
   \<and> \<not> (ScaleOptions.height \<lparr>ScaleOptions.height = Some (Fin 0), width = Some (Fin 640), preserveRatio = Some False\<rparr> = None
        \<and> ScaleOptions.width \<lparr>ScaleOptions.height = Some (Fin 0), width = Some (Fin 640), preserveRatio = Some False\<rparr> = None)
   \<and> decodeImage (loading_host 200 100) ''data:,img'' = Load 200 100
   \<and> getContext (loading_host 200 100)
   \<and> result_dimensions (scaleBase64 (loading_host 200 100) ''data:,img''
        \<lparr>ScaleOptions.height = Some (Fin 0), width = Some (Fin 640), preserveRatio = Some False\<rparr>)
      = Some \<lparr>Dimensions.height = Fin 200, width = Fin 640\<rparr>
   \<and> result_dimensions (scaleBase64 (loading_host 200 100) ''data:,img''
        \<lparr>ScaleOptions.height = Some (Fin 300), width = Some (Fin 300), preserveRatio = Some False\<rparr>)
      = Some \<lparr>Dimensions.height = Fin 300, width = Fin 300\<rparr>"
proof -
  let ?o = "\<lparr>ScaleOptions.height = Some (Fin 0), width = Some (Fin 640), preserveRatio = Some False\<rparr>"
  have h1: "preserveRatio ?o = Some False" by simp
  have h2: "\<not> (ScaleOptions.height ?o = None \<and> ScaleOptions.width ?o = None)" by simp
  have h3: "decodeImage (loading_host 200 100) ''data:,img'' = Load 200 100"
    by (simp add: loading_host_def)
  have h4: "getContext (loading_host 200 100)" by (simp add: loading_host_def)
  from scaleBase64_free_scaling h1 h2 h3 h4
  have r1: "result_dimensions (scaleBase64 (loading_host 200 100) ''data:,img'' ?o) =
            Some \<lparr>Dimensions.height = spec_free_axis (ScaleOptions.height ?o) 200,
                  Dimensions.width = spec_free_axis (ScaleOptions.width ?o) 100\<rparr>"
    by blast
  from scaleBase64_free_scaling h3 h4
  have r2: "result_dimensions (scaleBase64 (loading_host 200 100) ''data:,img''
        \<lparr>ScaleOptions.height = Some (Fin 300), width = Some (Fin 300), preserveRatio = Some False\<rparr>)
      = Some \<lparr>Dimensions.height = Fin 300, width = Fin 300\<rparr>"
    by blast
  show ?thesis
    using h3 h4 r1 r2 by (simp add: spec_free_axis_def)
qed

section \<open>A zero constraint\<close>

lemma zero_constraint_not_scaleDown_height:
  "scaleDown \<lparr>ScaleOptions.height = Some (Fin 0), width = w, preserveRatio = pr\<rparr> d
   = scaleDown \<lparr>ScaleOptions.height = None, width = w, preserveRatio = pr\<rparr> d"
  by (simp add: scaleDown_def truthy_def)

lemma zero_constraint_not_scaleDown_width:
  "scaleDown \<lparr>ScaleOptions.height = h, width = Some (Fin 0), preserveRatio = pr\<rparr> d
   = scaleDown \<lparr>ScaleOptions.height = h, width = None, preserveRatio = pr\<rparr> d"
  by (simp add: scaleDown_def truthy_def)

lemma js_or_zero: "js_or (Some (Fin 0)) b = js_or None b"
  by (simp add: js_or_def truthy_def)

lemma scaleBase64_then_zero_height:
  "scaleBase64_then host b64 \<lparr>ScaleOptions.height = Some (Fin 0), width = w, preserveRatio = pr\<rparr> i
   = scaleBase64_then host b64 \<lparr>ScaleOptions.height = None, width = w, preserveRatio = pr\<rparr> i"
  by (simp add: scaleBase64_then_def Let_def zero_constraint_not_scaleDown_height js_or_zero percentage_def)

lemma scaleBase64_then_zero_width:
  "scaleBase64_then host b64 \<lparr>ScaleOptions.height = h, width = Some (Fin 0), preserveRatio = pr\<rparr> i
   = scaleBase64_then host b64 \<lparr>ScaleOptions.height = h, width = None, preserveRatio = pr\<rparr> i"
  by (simp add: scaleBase64_then_def Let_def zero_constraint_not_scaleDown_width js_or_zero percentage_def)

lemma zero_height_only:
  assumes "pr \<noteq> Some False" and "decodeImage host b64 = Load H W"
  shows "scaleBase64 host b64 \<lparr>ScaleOptions.height = Some (Fin 0), width = None, preserveRatio = pr\<rparr> =
         ([ImageDecode b64],
          Returns (Resolved \<lparr>BlobData.base64 = b64, BlobData.dimensions = natural H W\<rparr>))"
proof (rule scaleBase64_short_circuit)
  show "\<not> scaleDown \<lparr>ScaleOptions.height = Some (Fin 0), width = None, preserveRatio = pr\<rparr> (natural H W)"
    by (simp add: scaleDown_def truthy_def)
qed (use assms in simp_all)

lemma zero_width_only:
  assumes "pr \<noteq> Some False" and "decodeImage host b64 = Load H W"
  shows "scaleBase64 host b64 \<lparr>ScaleOptions.height = None, width = Some (Fin 0), preserveRatio = pr\<rparr> =
         ([ImageDecode b64],
          Returns (Resolved \<lparr>BlobData.base64 = b64, BlobData.dimensions = natural H W\<rparr>))"
proof (rule scaleBase64_short_circuit)
  show "\<not> scaleDown \<lparr>ScaleOptions.height = None, width = Some (Fin 0), preserveRatio = pr\<rparr> (natural H W)"
    by (simp add: scaleDown_def truthy_def)
qed (use assms in simp_all)

lemma zero_height_as_absent:
  "scaleBase64 host b64 \<lparr>ScaleOptions.height = Some (Fin 0), width = Some w, preserveRatio = pr\<rparr>
   = scaleBase64 host b64 \<lparr>ScaleOptions.height = None, width = Some w, preserveRatio = pr\<rparr>"
proof -
  have "scaleBase64_then host b64 \<lparr>ScaleOptions.height = Some (Fin 0), width = Some w, preserveRatio = pr\<rparr>
        = scaleBase64_then host b64 \<lparr>ScaleOptions.height = None, width = Some w, preserveRatio = pr\<rparr>"
    by (rule ext) (rule scaleBase64_then_zero_height)
  then show ?thesis by (simp add: scaleBase64_def)
qed

lemma zero_width_as_absent:
  "scaleBase64 host b64 \<lparr>ScaleOptions.height = Some h, width = Some (Fin 0), preserveRatio = pr\<rparr>
   = scaleBase64 host b64 \<lparr>ScaleOptions.height = Some h, width = None, preserveRatio = pr\<rparr>"
proof -
  have "scaleBase64_then host b64 \<lparr>ScaleOptions.height = Some h, width = Some (Fin 0), preserveRatio = pr\<rparr>
        = scaleBase64_then host b64 \<lparr>ScaleOptions.height = Some h, width = None, preserveRatio = pr\<rparr>"
    by (rule ext) (rule scaleBase64_then_zero_width)
  then show ?thesis by (simp add: scaleBase64_def)
qed

text \<open>
  C10. With \<open>preserveRatio\<close> true or absent and an image that loads, the options
  \<open>{height: 0}\<close> (and likewise \<open>{width: 0}\<close>) pass the validation at entry: the call does not
  throw, it returns a promise. The zero constraint is skipped by the downscale check, so
  the promise resolves with the encoded string that was given and the natural dimensions,
  after the decode alone. Beside another constraint, a zero constraint is treated exactly
  as an absent one: asking for zero never gives an output of size zero.
\<close>

theorem scaleBase64_zero_constraint_is_absent:
  "(\<forall>(host::host) b64 pr H W.
      pr \<noteq> Some False \<and> decodeImage host b64 = Load H W \<longrightarrow>
      scaleBase64 host b64 \<lparr>ScaleOptions.height = Some (Fin 0), width = None, preserveRatio = pr\<rparr> =
        ([ImageDecode b64],
         Returns (Resolved \<lparr>BlobData.base64 = b64, BlobData.dimensions = natural H W\<rparr>))
      \<and> scaleBase64 host b64 \<lparr>ScaleOptions.height = None, width = Some (Fin 0), preserveRatio = pr\<rparr> =
        ([ImageDecode b64],
         Returns (Resolved \<lparr>BlobData.base64 = b64, BlobData.dimensions = natural H W\<rparr>)))
   \<and> (\<forall>(host::host) b64 pr w.
        scaleBase64 host b64 \<lparr>ScaleOptions.height = Some (Fin 0), width = Some w, preserveRatio = pr\<rparr>
        = scaleBase64 host b64 \<lparr>ScaleOptions.height = None, width = Some w, preserveRatio = pr\<rparr>)
   \<and> (\<forall>(host::host) b64 pr h.
        scaleBase64 host b64 \<lparr>ScaleOptions.height = Some h, width = Some (Fin 0), preserveRatio = pr\<rparr>
        = scaleBase64 host b64 \<lparr>ScaleOptions.height = Some h, width = None, preserveRatio = pr\<rparr>)"
proof (intro conjI allI impI)
  fix host :: host and b64 pr H W
  assume a: "pr \<noteq> Some False \<and> decodeImage host b64 = Load H W"
  then show "scaleBase64 host b64 \<lparr>ScaleOptions.height = Some (Fin 0), width = None, preserveRatio = pr\<rparr> =
        ([ImageDecode b64],
         Returns (Resolved \<lparr>BlobData.base64 = b64, BlobData.dimensions = natural H W\<rparr>))"
    using zero_height_only [of pr host b64 H W] by simp
  from a show "scaleBase64 host b64 \<lparr>ScaleOptions.height = None, width = Some (Fin 0), preserveRatio = pr\<rparr> =
        ([ImageDecode b64],
         Returns (Resolved \<lparr>BlobData.base64 = b64, BlobData.dimensions = natural H W\<rparr>))"
    using zero_width_only [of pr host b64 H W] by simp
qed (rule zero_height_as_absent, rule zero_width_as_absent)

theorem scaleBase64_zero_constraint_is_absent_witness:
  "None \<noteq> Some False
   \<and> decodeImage (loading_host 200 100) ''data:,img'' = Load 200 100
   \<and> scaleBase64 (loading_host 200 100) ''data:,img''
        \<lparr>ScaleOptions.height = Some (Fin 0), width = None, preserveRatio = None\<rparr> =
      ([ImageDecode ''data:,img''],
       Returns (Resolved \<lparr>BlobData.base64 = ''data:,img'', BlobData.dimensions = natural 200 100\<rparr>))
   \<and> scaleBase64 (loading_host 200 100) ''data:,img''
        \<lparr>ScaleOptions.height = None, width = Some (Fin 0), preserveRatio = None\<rparr> =
      ([ImageDecode ''data:,img''],
       Returns (Resolved \<lparr>BlobData.base64 = ''data:,img'', BlobData.dimensions = natural 200 100\<rparr>))"
proof -
  have h1: "(None :: bool option) \<noteq> Some False" by simp
  have h2: "decodeImage (loading_host 200 100) ''data:,img'' = Load 200 100"
    by (simp add: loading_host_def)
  from scaleBase64_zero_constraint_is_absent
  have "None \<noteq> Some False \<and> decodeImage (loading_host 200 100) ''data:,img'' = Load 200 100 \<longrightarrow>
      scaleBase64 (loading_host 200 100) ''data:,img''
        \<lparr>ScaleOptions.height = Some (Fin 0), width = None, preserveRatio = None\<rparr> =
        ([ImageDecode ''data:,img''],
         Returns (Resolved \<lparr>BlobData.base64 = ''data:,img'', BlobData.dimensions = natural 200 100\<rparr>))
      \<and> scaleBase64 (loading_host 200 100) ''data:,img''
        \<lparr>ScaleOptions.height = None, width = Some (Fin 0), preserveRatio = None\<rparr> =
        ([ImageDecode ''data:,img''],
         Returns (Resolved \<lparr>BlobData.base64 = ''data:,img'', BlobData.dimensions = natural 200 100\<rparr>))"
    by (elim conjE allE)
  with h1 h2 show ?thesis by simp
qed

section \<open>Scaling the result of a short circuit again\<close>

lemma js_le_not_gt:
  "js_le a b \<Longrightarrow> \<not> js_gt n a \<Longrightarrow> \<not> js_gt n b"
  by (cases a; cases b; cases n) auto

lemma scaleBase64_resolved_original:
  assumes "scaleBase64 host b64 options = ([ImageDecode b64], Returns (Resolved r))"
    and "preserveRatio options \<noteq> Some False"
  shows "\<exists>H W. decodeImage host b64 = Load H W \<and> \<not> scaleDown options (natural H W)
               \<and> r = \<lparr>BlobData.base64 = b64, BlobData.dimensions = natural H W\<rparr>"
proof -
  from assms(1) have valid: "ScaleOptions.height options \<noteq> None \<or> ScaleOptions.width options \<noteq> None"
    by (auto simp add: scaleBase64_def split: if_splits)
  from assms(1) valid obtain H W where load: "decodeImage host b64 = Load H W"
    by (cases "decodeImage host b64")
       (auto simp add: scaleBase64_def then_promise_def getImageData_def split: prod.splits)
  note run = scaleBase64_Load [OF valid load]
  have nd: "\<not> scaleDown options (natural H W)"
  proof
    assume "scaleDown options (natural H W)"
    with assms(2) have "scaleBase64_then host b64 options (loaded b64 H W) =
        drawScaled host (loaded b64 H W)
          \<lparr>Dimensions.height = js_times (Dimensions.height (natural H W)) (percentage options (natural H W)),
           Dimensions.width = js_times (Dimensions.width (natural H W)) (percentage options (natural H W))\<rparr>"
      by (simp add: scaleBase64_then_def loaded_def Let_def)
    then have "fst (scaleBase64_then host b64 options (loaded b64 H W)) \<noteq> []"
      by (simp add: drawScaled_def Let_def)
    with assms(1) run show False by simp
  qed
  from scaleBase64_short_circuit [OF _ assms(2) load nd] valid assms(1)
  have "r = \<lparr>BlobData.base64 = b64, BlobData.dimensions = natural H W\<rparr>" by auto
  with load nd show ?thesis by blast
qed

lemma not_scaleDown_axis:
  assumes "\<not> (case a of None \<Rightarrow> False | Some x \<Rightarrow> truthy x \<and> js_gt n x)"
    and "constraint_le a b"
  shows "\<not> (case b of None \<Rightarrow> False | Some y \<Rightarrow> truthy y \<and> js_gt n y)"
proof (cases b)
  case None
  then show ?thesis by simp
next
  case (Some y)
  show ?thesis
  proof (cases "truthy y")
    case False
    with Some show ?thesis by simp
  next
    case True
    with Some have "effective b = Some y" by (simp add: effective_def)
    with assms(2) obtain x where x: "effective a = Some x" "js_le x y"
      by (auto simp add: constraint_le_def split: option.splits)
    then have "a = Some x" "truthy x"
      by (auto simp add: effective_def split: option.splits if_splits)
    with assms(1) have "\<not> js_gt n x" by simp
    with x(2) have "\<not> js_gt n y" by (rule js_le_not_gt)
    with Some show ?thesis by simp
  qed
qed

lemma not_scaleDown_looser:
  assumes "\<not> scaleDown options d"
    and "same_constraints again options \<or> at_least_as_large again options"
  shows "\<not> scaleDown again d"
proof -
  from assms(2) show ?thesis
  proof
    assume "same_constraints again options"
    with assms(1) show ?thesis by (simp add: same_constraints_def scaleDown_def)
  next
    assume a: "at_least_as_large again options"
    from assms(1) have
      "\<not> (case ScaleOptions.height options of None \<Rightarrow> False
          | Some h \<Rightarrow> truthy h \<and> js_gt (Dimensions.height d) h)"
      by (simp add: scaleDown_def)
    moreover from a have "constraint_le (ScaleOptions.height options) (ScaleOptions.height again)"
      by (simp add: at_least_as_large_def)
    ultimately have h:
      "\<not> (case ScaleOptions.height again of None \<Rightarrow> False
          | Some h \<Rightarrow> truthy h \<and> js_gt (Dimensions.height d) h)"
      by (rule not_scaleDown_axis)
    from assms(1) have
      "\<not> (case ScaleOptions.width options of None \<Rightarrow> False
          | Some w \<Rightarrow> truthy w \<and> js_gt (Dimensions.width d) w)"
      by (simp add: scaleDown_def)
    moreover from a have "constraint_le (ScaleOptions.width options) (ScaleOptions.width again)"
      by (simp add: at_least_as_large_def)
    ultimately have w:
      "\<not> (case ScaleOptions.width again of None \<Rightarrow> False
          | Some w \<Rightarrow> truthy w \<and> js_gt (Dimensions.width d) w)"
      by (rule not_scaleDown_axis)
    from h w show ?thesis by (simp add: scaleDown_def)
  qed
qed

text \<open>
  C8. Let a ratio-preserving call resolve through the short circuit (the decode is its only
  request to the host). A second ratio-preserving call on the result, with valid options
  that have the same constraints or constraints at least as large, resolves with the
  identical encoded string and the identical dimensions, again after the decode alone. A
  zero option is not provided (C10), so it imposes no constraint: after \<open>{height: 0}\<close> the
  options \<open>{height: 1}\<close> add a constraint and are not at least as large.
\<close>

theorem scaleBase64_no_op_idempotent:
  assumes "scaleBase64 host b64 options = ([ImageDecode b64], Returns (Resolved r))"
    and "preserveRatio options \<noteq> Some False"
    and "preserveRatio again \<noteq> Some False"
    and "\<not> (ScaleOptions.height again = None \<and> ScaleOptions.width again = None)"
    and "same_constraints again options \<or> at_least_as_large again options"
  shows "scaleBase64 host (BlobData.base64 r) again =
         ([ImageDecode (BlobData.base64 r)], Returns (Resolved r))"
proof -
  from scaleBase64_resolved_original [OF assms(1,2)]
  obtain H W where load: "decodeImage host b64 = Load H W"
    and nd: "\<not> scaleDown options (natural H W)"
    and r: "r = \<lparr>BlobData.base64 = b64, BlobData.dimensions = natural H W\<rparr>"
    by blast
  from nd assms(5) have nd': "\<not> scaleDown again (natural H W)"
    by (rule not_scaleDown_looser)
  from scaleBase64_short_circuit [OF assms(4) assms(3) load nd'] r show ?thesis
    by simp
qed

theorem scaleBase64_no_op_idempotent_witness:
  "scaleBase64 (loading_host 100 100) ''data:,img''
     \<lparr>ScaleOptions.height = Some (Fin 150), width = Some (Fin 150), preserveRatio = None\<rparr>
   = ([ImageDecode ''data:,img''],
      Returns (Resolved \<lparr>BlobData.base64 = ''data:,img'', BlobData.dimensions = natural 100 100\<rparr>))
   \<and> preserveRatio \<lparr>ScaleOptions.height = Some (Fin 150), width = Some (Fin 150), preserveRatio = None\<rparr> \<noteq> Some False
   \<and> preserveRatio \<lparr>ScaleOptions.height = Some (Fin 200), width = Some (Fin 0), preserveRatio = Some True\<rparr> \<noteq> Some False
   \<and> \<not> (ScaleOptions.height \<lparr>ScaleOptions.height = Some (Fin 200), width = Some (Fin 0), preserveRatio = Some True\<rparr> = None
        \<and> ScaleOptions.width \<lparr>ScaleOptions.height = Some (Fin 200), width = Some (Fin 0), preserveRatio = Some True\<rparr> = None)
   \<and> at_least_as_large \<lparr>ScaleOptions.height = Some (Fin 200), width = Some (Fin 0), preserveRatio = Some True\<rparr>
        \<lparr>ScaleOptions.height = Some (Fin 150), width = Some (Fin 150), preserveRatio = None\<rparr>
   \<and> scaleBase64 (loading_host 100 100) ''data:,img''
        \<lparr>ScaleOptions.height = Some (Fin 200), width = Some (Fin 0), preserveRatio = Some True\<rparr>
     = ([ImageDecode ''data:,img''],
        Returns (Resolved \<lparr>BlobData.base64 = ''data:,img'', BlobData.dimensions = natural 100 100\<rparr>))
   \<and> same_constraints \<lparr>ScaleOptions.height = Some (Fin 150), width = Some (Fin 150), preserveRatio = Some True\<rparr>
        \<lparr>ScaleOptions.height = Some (Fin 150), width = Some (Fin 150), preserveRatio = None\<rparr>
   \<and> scaleBase64 (loading_host 100 100) ''data:,img''
        \<lparr>ScaleOptions.height = Some (Fin 150), width = Some (Fin 150), preserveRatio = Some True\<rparr>
     = ([ImageDecode ''data:,img''],
        Returns (Resolved \<lparr>BlobData.base64 = ''data:,img'', BlobData.dimensions = natural 100 100\<rparr>))"
proof -
  let ?o = "\<lparr>ScaleOptions.height = Some (Fin 150), width = Some (Fin 150), preserveRatio = None\<rparr>"
  let ?a = "\<lparr>ScaleOptions.height = Some (Fin 200), width = Some (Fin 0), preserveRatio = Some True\<rparr>"
  let ?s = "\<lparr>ScaleOptions.height = Some (Fin 150), width = Some (Fin 150), preserveRatio = Some True\<rparr>"
  let ?r = "\<lparr>BlobData.base64 = ''data:,img'', BlobData.dimensions = natural 100 100\<rparr>"
  have h1: "scaleBase64 (loading_host 100 100) ''data:,img'' ?o
            = ([ImageDecode ''data:,img''], Returns (Resolved ?r))"
    by (simp add: scaleBase64_def then_promise_def getImageData_def loading_host_def
        scaleBase64_then_def scaleDown_def truthy_def natural_def Let_def)
  have h2: "preserveRatio ?o \<noteq> Some False" by simp
  have h3: "preserveRatio ?a \<noteq> Some False" by simp
  have h3': "preserveRatio ?s \<noteq> Some False" by simp
  have h4: "\<not> (ScaleOptions.height ?a = None \<and> ScaleOptions.width ?a = None)" by simp
  have h4': "\<not> (ScaleOptions.height ?s = None \<and> ScaleOptions.width ?s = None)" by simp
  have h5: "at_least_as_large ?a ?o"
    by (simp add: at_least_as_large_def constraint_le_def effective_def truthy_def)
  have h5': "same_constraints ?s ?o" by (simp add: same_constraints_def)
  from h5 have h6: "same_constraints ?a ?o \<or> at_least_as_large ?a ?o" by simp
  from h5' have h6': "same_constraints ?s ?o \<or> at_least_as_large ?s ?o" by simp
  from scaleBase64_no_op_idempotent [OF h1 h2 h3 h4 h6]
       scaleBase64_no_op_idempotent [OF h1 h2 h3' h4' h6']
       h1 h2 h3 h4 h5 h5'
  show ?thesis by simp
qed

section \<open>Failures of the image decode\<close>

text \<open>
  The statement of C7 as written fails when the host reports the failed decode with an
  \<open>error\<close> event: no handler is assigned for it, the promise of \<open>getImageData\<close> is never
  rejected, and the promises of \<open>scaleBase64\<close> and \<open>getBase64\<close> stay pending.
\<close>

theorem image_error_not_forwarded_counterexample:
  "decodeImage failing_host ''data:a.png'' = Error (Event ''error'')
   \<and> getImageData failing_host ''data:a.png'' = ([ImageDecode ''data:a.png''], Pending)
   \<and> snd (getImageData failing_host ''data:a.png'') \<noteq> Rejected (HostEvent (Event ''error''))
   \<and> scaleBase64 failing_host ''data:a.png''
        \<lparr>ScaleOptions.height = Some (Fin 50), width = None, preserveRatio = None\<rparr> =
        ([ImageDecode ''data:a.png''], Returns Pending)
   \<and> getBase64 failing_host \<lparr>name = ''a.png''\<rparr> =
        ([FileRead \<lparr>name = ''a.png''\<rparr>, ImageDecode ''data:a.png''], Returns Pending)"
  by (simp add: failing_host_def getImageData_def scaleBase64_def getBase64_def then_promise_def)

text \<open>
  C7, amended. Whenever the host aborts the image decode (it fires \<open>abort\<close>), \<open>getImageData\<close>
  rejects with the event the host reported; \<open>scaleBase64\<close> (with valid options) and
  \<open>getBase64\<close> (once the file is read) reject with that same event, not wrapped and not
  translated, after a single decode request.
\<close>

theorem image_abort_forwarded:
  assumes "decodeImage host b64 = Abort ev"
  shows "getImageData host b64 = ([ImageDecode b64], Rejected (HostEvent ev))
     \<and> (\<not> (ScaleOptions.height options = None \<and> ScaleOptions.width options = None) \<longrightarrow>
          scaleBase64 host b64 options = ([ImageDecode b64], Returns (Rejected (HostEvent ev))))
     \<and> (readAsDataURL host file = ReaderLoad b64 \<longrightarrow>
          getBase64 host file = ([FileRead file, ImageDecode b64], Returns (Rejected (HostEvent ev))))"
  using assms
  by (simp add: getImageData_def scaleBase64_def getBase64_def then_promise_def)

theorem image_abort_forwarded_witness:
  "decodeImage aborting_host ''data:a.png'' = Abort (Event ''abort'')
   \<and> \<not> (ScaleOptions.height \<lparr>ScaleOptions.height = Some (Fin 50), width = None, preserveRatio = None\<rparr> = None
        \<and> ScaleOptions.width \<lparr>ScaleOptions.height = Some (Fin 50), width = None, preserveRatio = None\<rparr> = None)
   \<and> readAsDataURL aborting_host \<lparr>name = ''a.png''\<rparr> = ReaderLoad ''data:a.png''
   \<and> getImageData aborting_host ''data:a.png'' =
        ([ImageDecode ''data:a.png''], Rejected (HostEvent (Event ''abort'')))
   \<and> scaleBase64 aborting_host ''data:a.png''
        \<lparr>ScaleOptions.height = Some (Fin 50), width = None, preserveRatio = None\<rparr> =
        ([ImageDecode ''data:a.png''], Returns (Rejected (HostEvent (Event ''abort''))))
   \<and> getBase64 aborting_host \<lparr>name = ''a.png''\<rparr> =
        ([FileRead \<lparr>name = ''a.png''\<rparr>, ImageDecode ''data:a.png''],
         Returns (Rejected (HostEvent (Event ''abort''))))"
proof -
  have h1: "decodeImage aborting_host ''data:a.png'' = Abort (Event ''abort'')"
    by (simp add: aborting_host_def)
  have h2: "readAsDataURL aborting_host \<lparr>name = ''a.png''\<rparr> = ReaderLoad ''data:a.png''"
    by (simp add: aborting_host_def)
  from image_abort_forwarded [OF h1,
      of "\<lparr>ScaleOptions.height = Some (Fin 50), width = None, preserveRatio = None\<rparr>"
         "\<lparr>name = ''a.png''\<rparr>"] h1 h2
  show ?thesis by simp
qed

section \<open>Listing the files of an input\<close>

lemma spread_length: "length (spread fl) = length_FileList fl"
  by (simp add: spread_def)

lemma spread_empty: "length_FileList fl = 0 \<Longrightarrow> spread fl = []"
  by (simp add: spread_def)

lemma spread_nth: "i < length_FileList fl \<Longrightarrow> spread fl ! i = item fl i"
  by (simp add: spread_def)

text \<open>
  C9. \<open>getFileBlobs\<close> never throws and never rejects: it returns a promise resolved with a
  list, without asking the host anything. The list holds exactly the entries of the file
  list, in its order: it has the length of the file list and its \<open>i\<close>-th element is the
  \<open>i\<close>-th item. An empty file list, and an input with no file list, give the empty list.
\<close>

theorem getFileBlobs_lists_files:
  "\<exists>fs. getFileBlobs input = ([], Returns (Resolved fs))
     \<and> (case files input of
          None \<Rightarrow> fs = []
        | Some fl \<Rightarrow>
            length fs = length_FileList fl
            \<and> (\<forall>i < length_FileList fl. fs ! i = item fl i)
            \<and> (length_FileList fl = 0 \<longrightarrow> fs = []))"
  by (cases "files input") (simp_all add: getFileBlobs_def spread_length spread_nth spread_empty)

theorem getFileBlobs_lists_files_witness:
  "\<exists>fs. getFileBlobs two_files = ([], Returns (Resolved fs))
     \<and> length fs = 2 \<and> fs ! 0 = \<lparr>name = ''a.png''\<rparr> \<and> fs ! 1 = \<lparr>name = ''b.png''\<rparr>"
proof -
  from getFileBlobs_lists_files [of two_files]
  obtain fs where fs: "getFileBlobs two_files = ([], Returns (Resolved fs))"
    and "length fs = 2" and nth: "\<forall>i < 2. fs ! i = (if i = 0 then \<lparr>name = ''a.png''\<rparr> else \<lparr>name = ''b.png''\<rparr>)"
    by (auto simp add: two_files_def)
  moreover from nth have "fs ! 0 = \<lparr>name = ''a.png''\<rparr>" by auto
  moreover from nth have "fs ! 1 = \<lparr>name = ''b.png''\<rparr>" by auto
  ultimately show ?thesis by blast
qed

section \<open>Constraints that the ratio-preserving mode does not keep\<close>

text \<open>
  C1. When both constraints are positive, the factor is taken from the constraint of the
  larger natural axis alone. A 200x100 image (height 200) scaled with
  \<open>{height: 50, width: 10, preserveRatio: true}\<close> resolves with \<open>(50, 25)\<close>: the width 25
  exceeds the maximum width 10.
\<close>

theorem scaleBase64_exceeds_width_constraint:
  "result_dimensions (scaleBase64 (loading_host 200 100) ''data:,img''
     \<lparr>ScaleOptions.height = Some (Fin 50), width = Some (Fin 10), preserveRatio = Some True\<rparr>)
   = Some \<lparr>Dimensions.height = Fin 50, Dimensions.width = Fin 25\<rparr>
   \<and> js_gt (Fin 25) (Fin 10)"
  by (simp add: scaleBase64_def then_promise_def getImageData_def loading_host_def
      scaleBase64_then_def scaleDown_def truthy_def Let_def
      result_dimensions_def drawScaled_def percentage_def largerDimension_def js_or_def)

text \<open>
  C5. For the same reason the ratio-preserving mode can enlarge an image. A 100x200 image
  (height 100, width 200) scaled with \<open>{height: 10, width: 400, preserveRatio: true}\<close> needs
  downscaling for its height, takes the factor \<open>400 / 200\<close> from the width, and resolves
  with \<open>(200, 400)\<close>: both dimensions exceed the natural ones.
\<close>

theorem scaleBase64_upscales_in_ratio_mode:
  "result_dimensions (scaleBase64 (loading_host 100 200) ''data:,img''
     \<lparr>ScaleOptions.height = Some (Fin 10), width = Some (Fin 400), preserveRatio = Some True\<rparr>)
   = Some \<lparr>Dimensions.height = Fin 200, Dimensions.width = Fin 400\<rparr>
   \<and> natural 100 200 = \<lparr>Dimensions.height = Fin 100, Dimensions.width = Fin 200\<rparr>
   \<and> js_gt (Fin 200) (Fin 100) \<and> js_gt (Fin 400) (Fin 200)"
  by (simp add: scaleBase64_def then_promise_def getImageData_def loading_host_def
      scaleBase64_then_def scaleDown_def truthy_def Let_def natural_def
      result_dimensions_def drawScaled_def percentage_def largerDimension_def js_or_def)

end
